theory Spec2Isabelle
  imports Complex_Main
begin

section \<open>PID-controlled train catching a falling object: the simulation loop\<close>

text \<open>
  The embedding follows \<^verbatim>\<open>scripts/generate_random_scenarios.py\<close>. NumPy's float64
  values are idealised as real numbers: every arithmetic operation is the exact one, and
  \<^verbatim>\<open>np.tan\<close>, \<^verbatim>\<open>np.cos\<close>, \<^verbatim>\<open>np.sin\<close> are the real functions. Rounding, overflow,
  \<^verbatim>\<open>inf\<close> and \<^verbatim>\<open>nan\<close> are outside the model.
\<close>

subsection \<open>Module-level constants\<close>

text \<open>
  The script fixes gravity, time step, duration, gains, mass and friction coefficient as
  module-level constants. They are gathered in a record that every function takes as its
  first argument; \<open>module_params\<close> holds the values of the script.
\<close>

datatype py_error = ZeroDivisionError | ValueError | IndexError | KeyError

record params =
  g :: real
  dt :: real
  simulation_time :: real
  Kp :: real
  Ki :: real
  Kd :: real
  m :: real
  mu :: real

definition module_params :: params where
  "module_params = \<lparr> g = 981 / 100, dt = 2 / 100, simulation_time = 40,
     Kp = 45, Ki = 1 / 2, Kd = 25, m = 10, mu = 1 / 10 \<rparr>"

subsection \<open>Helpers standing for Python and NumPy primitives\<close>

text \<open>\<^verbatim>\<open>int(x)\<close> on a float truncates towards zero.\<close>

definition py_int :: "real \<Rightarrow> int" where
  "py_int x = (if 0 \<le> x then \<lfloor>x\<rfloor> else \<lceil>x\<rceil>)"

definition deg2rad :: "real \<Rightarrow> real" where
  "deg2rad a = a * pi / 180"

subsection \<open>The arrays and the PID state\<close>

record sim_state =
  train_position :: "real list"
  train_velocity :: "real list"
  train_acceleration :: "real list"
  ball_position :: "real list"
  applied_force :: "real list"
  error_values :: "real list"
  error_derivative_values :: "real list"
  error_integral_values :: "real list"
  error_integral :: real
  previous_error :: real

text \<open>
  Lines 44 to 60: eight arrays of zeros, the three initial conditions written at index 0,
  and the PID state. The caller has checked \<open>0 < n\<close>, so index 0 exists.
\<close>

definition init_state :: "nat \<Rightarrow> real \<Rightarrow> real \<Rightarrow> real \<Rightarrow> sim_state" where
  "init_state n ball_x ball_y_initial train_x_initial =
    (let train_position0 = (replicate n 0)[0 := train_x_initial];
         train_velocity0 = (replicate n 0)[0 := 0];
         ball_position0 = (replicate n 0)[0 := ball_y_initial]
     in \<lparr> train_position = train_position0,
          train_velocity = train_velocity0,
          train_acceleration = replicate n 0,
          ball_position = ball_position0,
          applied_force = replicate n 0,
          error_values = replicate n 0,
          error_derivative_values = replicate n 0,
          error_integral_values = replicate n 0,
          error_integral = 0,
          previous_error = ball_x - train_position0 ! 0 \<rparr>)"

text \<open>
  Lines 63 to 119: one iteration of the loop at index \<open>i\<close>. Every read and write of
  the source is at an index below \<open>num_steps\<close>: the write at \<open>i + 1\<close> is guarded by
  \<^verbatim>\<open>i < num_steps - 1\<close>.
\<close>

definition loop_body ::
  "params \<Rightarrow> real \<Rightarrow> real \<Rightarrow> real \<Rightarrow> nat \<Rightarrow> real list \<Rightarrow> nat \<Rightarrow> sim_state \<Rightarrow> sim_state" where
  "loop_body c angle_rad ball_x ball_y_initial num_steps time_array i st =
    (let ball_position1 = (ball_position st)[i := ball_y_initial - (1 / 2) * g c * (time_array ! i) ^ 2];
         ball_landing_y = ball_x * tan angle_rad;
         ball_position2 = (if ball_position1 ! i \<le> ball_landing_y
                           then ball_position1[i := ball_landing_y] else ball_position1);
         current_error = ball_x - train_position st ! i;
         error_values1 = (error_values st)[i := current_error];
         error_integral1 = error_integral st + current_error * dt c;
         error_derivative = (current_error - previous_error st) / dt c;
         error_derivative_values1 = (error_derivative_values st)[i := error_derivative];
         error_integral_values1 = (error_integral_values st)[i := error_integral1];
         F_control = Kp c * current_error + Ki c * error_integral1 + Kd c * error_derivative;
         N = m c * g c * cos angle_rad;
         F_friction = (if train_velocity st ! i > 1 / 100 then - mu c * N
                       else if train_velocity st ! i < - (1 / 100) then mu c * N
                       else 0);
         F_gravity = - m c * g c * sin angle_rad;
         F_net = F_control + F_friction + F_gravity;
         applied_force1 = (applied_force st)[i := F_control];
         acceleration = F_net / m c;
         train_acceleration1 = (train_acceleration st)[i := acceleration];
         (train_velocity2, train_position2) =
           (if int i < int num_steps - 1 then
              (let train_velocity1 = (train_velocity st)[i + 1 := train_velocity st ! i + acceleration * dt c];
                   train_position1 = (train_position st)[i + 1 := train_position st ! i + train_velocity1 ! (i + 1) * dt c]
               in if train_position1 ! (i + 1) < 0
                  then (train_velocity1[i + 1 := 0], train_position1[i + 1 := 0])
                  else (train_velocity1, train_position1))
            else (train_velocity st, train_position st))
     in \<lparr> train_position = train_position2,
          train_velocity = train_velocity2,
          train_acceleration = train_acceleration1,
          ball_position = ball_position2,
          applied_force = applied_force1,
          error_values = error_values1,
          error_derivative_values = error_derivative_values1,
          error_integral_values = error_integral_values1,
          error_integral = error_integral1,
          previous_error = current_error \<rparr>)"

text \<open>\<^verbatim>\<open>for i in range(num_steps)\<close>: the body at 0, 1, ..., \<open>num_steps - 1\<close> in turn.\<close>

definition run_loop ::
  "params \<Rightarrow> real \<Rightarrow> real \<Rightarrow> real \<Rightarrow> nat \<Rightarrow> real list \<Rightarrow> sim_state \<Rightarrow> sim_state" where
  "run_loop c angle_rad ball_x ball_y_initial num_steps time_array st =
     fold (loop_body c angle_rad ball_x ball_y_initial num_steps time_array) [0..<num_steps] st"

subsection \<open>The data frame and the whole run\<close>

text \<open>A pandas data frame: named columns in order, each a list of values.\<close>

type_synonym dataframe = "(string \<times> real list) list"

text \<open>
  \<open>simulate_scenario\<close>, lines 34 to 131. Three faults can end the run before the loop:
  the division \<^verbatim>\<open>simulation_time / dt\<close> of two Python floats raises on a zero divisor,
  \<^verbatim>\<open>np.zeros\<close> rejects a negative length, and writing index 0 of an empty array
  raises. There is no other check of the arguments. The value is the data frame that
  line 140 writes to the CSV file; directory creation, the file name and the file itself are
  not modelled.
\<close>

definition simulate_scenario ::
  "params \<Rightarrow> real \<Rightarrow> real \<Rightarrow> real \<Rightarrow> real \<Rightarrow> py_error + dataframe" where
  "simulate_scenario c angle_deg ball_x ball_y_initial train_x_initial =
    (let angle_rad = deg2rad angle_deg in
     if dt c = 0 then Inl ZeroDivisionError
     else
       let num_steps = py_int (simulation_time c / dt c);
           time_array = map (\<lambda>i. real i * dt c) [0..<nat num_steps]
       in if num_steps < 0 then Inl ValueError
          else if num_steps = 0 then Inl IndexError
          else
            let st0 = init_state (nat num_steps) ball_x ball_y_initial train_x_initial;
                st = run_loop c angle_rad ball_x ball_y_initial (nat num_steps) time_array st0
            in Inr [(''time'', time_array),
                    (''train_position'', train_position st),
                    (''falling_object_position'', ball_position st),
                    (''applied_force'', applied_force st),
                    (''train_velocity'', train_velocity st),
                    (''train_acceleration'', train_acceleration st),
                    (''error_derivative'', error_derivative_values st),
                    (''error_integral'', error_integral_values st)])"

text \<open>
  Observations on the outcome of a run: the value in row \<open>k\<close> of a named column, and
  the number of rows. A run that raised has no rows.
\<close>

definition recorded :: "py_error + dataframe \<Rightarrow> string \<Rightarrow> nat \<Rightarrow> real option" where
  "recorded r name k =
    (case r of
       Inl e \<Rightarrow> None
     | Inr df \<Rightarrow> (case map_of df name of
                    None \<Rightarrow> None
                  | Some xs \<Rightarrow> if k < length xs then Some (xs ! k) else None))"

definition num_records :: "py_error + dataframe \<Rightarrow> nat" where
  "num_records r = (case r of Inl e \<Rightarrow> 0 | Inr df \<Rightarrow> (case df of [] \<Rightarrow> 0 | col # cols \<Rightarrow> length (snd col)))"

definition raised :: "py_error + dataframe \<Rightarrow> py_error option" where
  "raised r = (case r of Inl e \<Rightarrow> Some e | Inr df \<Rightarrow> None)"

subsection \<open>The catch classifier of the animation\<close>

text \<open>
  \<^verbatim>\<open>scripts/animate_realtime.py\<close>, the callback \<open>animate\<close>: lines 409 to 461 and the
  label of lines 514 to 532. The callback keeps two variables across frames,
  \<^verbatim>\<open>ball_caught_at_frame\<close> and \<^verbatim>\<open>ball_caught_y\<close>, both \<^verbatim>\<open>None\<close> at first and always
  assigned together. A frame is the index \<open>idx\<close> with the train position and the object
  height read from the data at that index. The callback prints a line when it decides that
  the object is caught and another when it decides that it is missed; on every frame it
  also sets the text drawn between train and object, which reads \<^verbatim>\<open>CAUGHT!\<close>,
  \<^verbatim>\<open>MISSED!\<close> or only the distances. The model returns the new state, what is printed,
  the height at which the object is drawn, and the text; plots and markers are not
  modelled.
\<close>

datatype verdict = CAUGHT | MISSED

datatype distance_text = Text_CAUGHT | Text_MISSED | Text_distances

record catch_state =
  ball_caught_at_frame :: "nat option"
  ball_caught_y :: "real option"

definition animate ::
  "real \<Rightarrow> real \<Rightarrow> nat \<times> real \<times> real \<Rightarrow> catch_state
     \<Rightarrow> catch_state \<times> verdict list \<times> real \<times> distance_text" where
  "animate obj_x_position angle_rad frame st =
    (case frame of (idx, train_x_current, obj_y_current) \<Rightarrow>
     let surface_y_at_ball_x = obj_x_position * tan angle_rad;
         (st1, printed1) =
           (if ball_caught_at_frame st = None then
              (if obj_y_current \<le> surface_y_at_ball_x + 1 then
                 (let horizontal_dist = \<bar>train_x_current - obj_x_position\<bar>
                  in if horizontal_dist < 3
                     then (\<lparr> ball_caught_at_frame = Some idx, ball_caught_y = Some surface_y_at_ball_x \<rparr>, [CAUGHT])
                     else (st, []))
               else (st, []))
            else (st, []));
         (st2, printed2, ball_display_y) =
           (case ball_caught_at_frame st1 of
              Some f \<Rightarrow> (st1, printed1, (case ball_caught_y st1 of Some y \<Rightarrow> y | None \<Rightarrow> obj_y_current))
            | None \<Rightarrow>
                (let ball_display_y = obj_y_current
                 in if ball_display_y < surface_y_at_ball_x
                    then (\<lparr> ball_caught_at_frame = Some idx, ball_caught_y = Some surface_y_at_ball_x \<rparr>,
                          printed1 @ [MISSED], surface_y_at_ball_x)
                    else (st1, printed1, ball_display_y)));
         train_x = train_x_current;
         shown =
           (case ball_caught_at_frame st2 of
              Some f \<Rightarrow>
                (if f \<le> idx
                 then (if \<bar>train_x - obj_x_position\<bar> < 3 then Text_CAUGHT else Text_MISSED)
                 else Text_distances)
            | None \<Rightarrow> Text_distances)
     in (st2, printed2, ball_display_y, shown))"

text \<open>
  The animation calls the callback on the frames in order. The result is the last state,
  every verdict printed and the text of every frame, each with the index of its frame.
\<close>

fun animate_frames ::
  "real \<Rightarrow> real \<Rightarrow> (nat \<times> real \<times> real) list \<Rightarrow> catch_state
     \<Rightarrow> catch_state \<times> (nat \<times> verdict) list \<times> (nat \<times> distance_text) list" where
  "animate_frames obj_x_position angle_rad [] st = (st, [], [])"
| "animate_frames obj_x_position angle_rad (frame # frames) st =
     (case animate obj_x_position angle_rad frame st of
        (st1, printed, ball_display_y, shown) \<Rightarrow>
          (case animate_frames obj_x_position angle_rad frames st1 of
             (st2, later, texts) \<Rightarrow>
               (st2, map (\<lambda>v. (fst frame, v)) printed @ later, (fst frame, shown) # texts)))"

definition pending :: catch_state where
  "pending = \<lparr> ball_caught_at_frame = None, ball_caught_y = None \<rparr>"

subsection \<open>The metrics of the scenario analysis\<close>

text \<open>
  \<^verbatim>\<open>scripts/analyze_random_scenarios.py\<close>, \<open>calculate_metrics\<close>, lines 44 to 82. The
  arrays of a scenario are columns of one data frame and have one length; the model takes
  them as the list of rows (time, train position, object height, force, velocity,
  acceleration). Angle, target position and initial train position are the integers parsed
  from the file name. The scan of lines 56 to 65 stops at the first row where the object is
  at most one metre above the landing height and the train is at most three metres from the
  target. \<^verbatim>\<open>np.max\<close> of an empty array raises \<^verbatim>\<open>ValueError\<close>.
\<close>

fun catch_scan :: "real \<Rightarrow> real \<Rightarrow> (real \<times> real \<times> real) list \<Rightarrow> bool \<times> real option \<times> real option" where
  "catch_scan ball_x ball_landing_y [] = (False, None, None)"
| "catch_scan ball_x ball_landing_y ((t, train_x, ball_y) # rows) =
     (if ball_y \<le> ball_landing_y + 1 then
        (let distance = \<bar>train_x - ball_x\<bar>
         in if distance \<le> 3 then (True, Some t, Some distance)
            else catch_scan ball_x ball_landing_y rows)
      else catch_scan ball_x ball_landing_y rows)"

definition np_max :: "real list \<Rightarrow> py_error + real" where
  "np_max xs = (case xs of [] \<Rightarrow> Inl ValueError | x # ys \<Rightarrow> Inr (fold max ys x))"

definition np_mean :: "real list \<Rightarrow> real" where
  "np_mean xs = sum_list xs / real (length xs)"

record metrics =
  caught :: bool
  catch_time :: "real option"
  catch_distance :: "real option"
  max_velocity :: real
  max_acceleration :: real
  max_force :: real
  mean_force :: real
  initial_distance :: int

definition calculate_metrics ::
  "int \<Rightarrow> int \<Rightarrow> int \<Rightarrow> (real \<times> real \<times> real \<times> real \<times> real \<times> real) list \<Rightarrow> py_error + metrics" where
  "calculate_metrics angle ball_x train_x0 rows =
     (let angle_rad = deg2rad (real_of_int angle);
          ball_landing_y = real_of_int ball_x * tan angle_rad
      in case catch_scan (real_of_int ball_x) ball_landing_y
                (map (\<lambda>(t, train_x, ball_y, force, velocity, acceleration). (t, train_x, ball_y)) rows) of
           (found, found_time, found_distance) \<Rightarrow>
         (case np_max (map (\<lambda>(t, train_x, ball_y, force, velocity, acceleration). \<bar>velocity\<bar>) rows) of
            Inl e \<Rightarrow> Inl e
          | Inr max_v \<Rightarrow>
         (case np_max (map (\<lambda>(t, train_x, ball_y, force, velocity, acceleration). \<bar>acceleration\<bar>) rows) of
            Inl e \<Rightarrow> Inl e
          | Inr max_a \<Rightarrow>
         (case np_max (map (\<lambda>(t, train_x, ball_y, force, velocity, acceleration). \<bar>force\<bar>) rows) of
            Inl e \<Rightarrow> Inl e
          | Inr max_f \<Rightarrow>
              Inr \<lparr> caught = found,
                    catch_time = found_time,
                    catch_distance = found_distance,
                    max_velocity = max_v,
                    max_acceleration = max_a,
                    max_force = max_f,
                    mean_force = np_mean (map (\<lambda>(t, train_x, ball_y, force, velocity, acceleration). \<bar>force\<bar>) rows),
                    initial_distance = ball_x - train_x0 \<rparr>))))"

subsection \<open>Writing and reading the data set\<close>

text \<open>
  A CSV file is a header line and data rows. \<^verbatim>\<open>df.to_csv(path, index=False)\<close> writes the
  column names and then one row per index; \<^verbatim>\<open>pd.read_csv\<close> rebuilds the columns from the
  rows. Cells are kept as numbers: how pandas prints and parses a float is not modelled.
  The columns of a pandas frame all have the length of the first one.
\<close>

type_synonym csv_file = "string list \<times> real list list"

definition to_csv :: "dataframe \<Rightarrow> csv_file" where
  "to_csv df =
     (let n = (case df of [] \<Rightarrow> 0 | col # cols \<Rightarrow> length (snd col))
      in (map fst df, map (\<lambda>i. map (\<lambda>col. snd col ! i) df) [0..<n]))"

definition read_csv :: "csv_file \<Rightarrow> dataframe" where
  "read_csv file =
     (case file of (header, rows) \<Rightarrow>
        map (\<lambda>j. (header ! j, map (\<lambda>row. row ! j) rows)) [0..<length header])"

text \<open>
  Indexing a frame with a list of names selects columns by name and raises \<^verbatim>\<open>KeyError\<close> on a missing one;
  assigning \<^verbatim>\<open>df.columns\<close> renames the columns in order and raises \<^verbatim>\<open>ValueError\<close> when
  the number of names differs from the number of columns.
\<close>

fun select_columns :: "dataframe \<Rightarrow> string list \<Rightarrow> py_error + dataframe" where
  "select_columns df [] = Inr []"
| "select_columns df (name # names) =
     (case map_of df name of
        None \<Rightarrow> Inl KeyError
      | Some xs \<Rightarrow> (case select_columns df names of
                     Inl e \<Rightarrow> Inl e
                   | Inr cols \<Rightarrow> Inr ((name, xs) # cols)))"

definition set_columns :: "dataframe \<Rightarrow> string list \<Rightarrow> py_error + dataframe" where
  "set_columns df names =
     (if length names = length df then Inr (zip names (map snd df)) else Inl ValueError)"

text \<open>
  \<^verbatim>\<open>scripts/analyze_comprehensive.py\<close>, lines 50 to 56: a frame of four columns is taken
  as the old format and renamed by position; any other frame is taken as the new format,
  from which four columns are selected by name and then renamed.
\<close>

definition load_simulation :: "dataframe \<Rightarrow> py_error + dataframe" where
  "load_simulation df =
     (if length df = 4 then set_columns df [''time'', ''train_x'', ''ball_y'', ''force'']
      else (case select_columns df [''time'', ''train_position'', ''falling_object_position'', ''applied_force''] of
              Inl e \<Rightarrow> Inl e
            | Inr df1 \<Rightarrow> set_columns df1 [''time'', ''train_x'', ''ball_y'', ''force'']))"

section \<open>Notions used in the proofs\<close>

text \<open>The number of steps of a run that reaches the loop.\<close>

abbreviation step_count :: "params \<Rightarrow> nat" where
  "step_count c \<equiv> nat (py_int (simulation_time c / dt c))"

definition column_lengths :: "py_error + dataframe \<Rightarrow> nat list" where
  "column_lengths r = (case r of Inl e \<Rightarrow> [] | Inr df \<Rightarrow> map (\<lambda>col. length (snd col)) df)"

text \<open>The quantities that one iteration computes from the state it starts in.\<close>

definition friction :: "params \<Rightarrow> real \<Rightarrow> real \<Rightarrow> real" where
  "friction c angle_rad v =
     (if v > 1 / 100 then - mu c * (m c * g c * cos angle_rad)
      else if v < - (1 / 100) then mu c * (m c * g c * cos angle_rad)
      else 0)"

definition pid_integral :: "params \<Rightarrow> real \<Rightarrow> sim_state \<Rightarrow> nat \<Rightarrow> real" where
  "pid_integral c ball_x st i = error_integral st + (ball_x - train_position st ! i) * dt c"

definition pid_derivative :: "params \<Rightarrow> real \<Rightarrow> sim_state \<Rightarrow> nat \<Rightarrow> real" where
  "pid_derivative c ball_x st i = ((ball_x - train_position st ! i) - previous_error st) / dt c"

definition pid_force :: "params \<Rightarrow> real \<Rightarrow> sim_state \<Rightarrow> nat \<Rightarrow> real" where
  "pid_force c ball_x st i =
     Kp c * (ball_x - train_position st ! i) + Ki c * pid_integral c ball_x st i
       + Kd c * pid_derivative c ball_x st i"

definition accel :: "params \<Rightarrow> real \<Rightarrow> real \<Rightarrow> sim_state \<Rightarrow> nat \<Rightarrow> real" where
  "accel c angle_rad ball_x st i =
     (pid_force c ball_x st i + friction c angle_rad (train_velocity st ! i)
        + - m c * g c * sin angle_rad) / m c"

definition cand_v :: "params \<Rightarrow> real \<Rightarrow> real \<Rightarrow> sim_state \<Rightarrow> nat \<Rightarrow> real" where
  "cand_v c angle_rad ball_x st i = train_velocity st ! i + accel c angle_rad ball_x st i * dt c"

definition cand_s :: "params \<Rightarrow> real \<Rightarrow> real \<Rightarrow> sim_state \<Rightarrow> nat \<Rightarrow> real" where
  "cand_s c angle_rad ball_x st i = train_position st ! i + cand_v c angle_rad ball_x st i * dt c"

definition ball_height :: "params \<Rightarrow> real \<Rightarrow> real \<Rightarrow> real \<Rightarrow> real \<Rightarrow> real" where
  "ball_height c angle_rad ball_x ball_y_initial t =
     (if ball_y_initial - (1 / 2) * g c * t ^ 2 \<le> ball_x * tan angle_rad
      then ball_x * tan angle_rad else ball_y_initial - (1 / 2) * g c * t ^ 2)"

text \<open>All eight arrays keep the length they were created with.\<close>

definition lens :: "nat \<Rightarrow> sim_state \<Rightarrow> bool" where
  "lens n st \<longleftrightarrow>
     length (train_position st) = n \<and> length (train_velocity st) = n \<and>
     length (train_acceleration st) = n \<and> length (ball_position st) = n \<and>
     length (applied_force st) = n \<and> length (error_values st) = n \<and>
     length (error_derivative_values st) = n \<and> length (error_integral_values st) = n"

text \<open>
  What the arrays hold at index \<open>k\<close> once iteration \<open>k\<close> has run, in terms of the
  arrays themselves: later iterations write at higher indices only.
\<close>

definition rec_ok ::
  "params \<Rightarrow> real \<Rightarrow> real \<Rightarrow> real \<Rightarrow> real \<Rightarrow> nat \<Rightarrow> real list \<Rightarrow> sim_state \<Rightarrow> nat \<Rightarrow> bool" where
  "rec_ok c angle_rad ball_x ball_y_initial train_x_initial n time_array st k \<longleftrightarrow>
     ball_position st ! k = ball_height c angle_rad ball_x ball_y_initial (time_array ! k) \<and>
     error_values st ! k = ball_x - train_position st ! k \<and>
     error_integral_values st ! k = (\<Sum>j\<le>k. (ball_x - train_position st ! j) * dt c) \<and>
     error_derivative_values st ! k =
        ((ball_x - train_position st ! k)
          - (if k = 0 then ball_x - train_x_initial else ball_x - train_position st ! (k - 1))) / dt c \<and>
     applied_force st ! k =
        Kp c * (ball_x - train_position st ! k) + Ki c * error_integral_values st ! k
          + Kd c * error_derivative_values st ! k \<and>
     train_acceleration st ! k =
        (applied_force st ! k + friction c angle_rad (train_velocity st ! k)
           + - m c * g c * sin angle_rad) / m c \<and>
     (Suc k < n \<longrightarrow>
        train_velocity st ! Suc k =
          (if train_position st ! k + (train_velocity st ! k + train_acceleration st ! k * dt c) * dt c < 0
           then 0 else train_velocity st ! k + train_acceleration st ! k * dt c) \<and>
        train_position st ! Suc k =
          (if train_position st ! k + (train_velocity st ! k + train_acceleration st ! k * dt c) * dt c < 0
           then 0 else train_position st ! k + (train_velocity st ! k + train_acceleration st ! k * dt c) * dt c))"

text \<open>The loop invariant after \<open>i\<close> iterations.\<close>

definition loop_inv ::
  "params \<Rightarrow> real \<Rightarrow> real \<Rightarrow> real \<Rightarrow> real \<Rightarrow> nat \<Rightarrow> real list \<Rightarrow> nat \<Rightarrow> sim_state \<Rightarrow> bool" where
  "loop_inv c angle_rad ball_x ball_y_initial train_x_initial n time_array i st \<longleftrightarrow>
     lens n st \<and>
     train_position st ! 0 = train_x_initial \<and>
     train_velocity st ! 0 = 0 \<and>
     error_integral st = (\<Sum>j<i. (ball_x - train_position st ! j) * dt c) \<and>
     previous_error st = (if i = 0 then ball_x - train_x_initial else ball_x - train_position st ! (i - 1)) \<and>
     (\<forall>k<i. rec_ok c angle_rad ball_x ball_y_initial train_x_initial n time_array st k)"

text \<open>The state in which the loop ends, for a run that reaches it.\<close>

definition final_state :: "params \<Rightarrow> real \<Rightarrow> real \<Rightarrow> real \<Rightarrow> real \<Rightarrow> sim_state" where
  "final_state c angle_deg ball_x ball_y_initial train_x_initial =
     (let n = nat (py_int (simulation_time c / dt c))
      in run_loop c (deg2rad angle_deg) ball_x ball_y_initial n
           (map (\<lambda>i. real i * dt c) [0..<n])
           (init_state n ball_x ball_y_initial train_x_initial))"

section \<open>The loop, step by step\<close>

lemma lb_lens: "lens n st \<Longrightarrow> lens n (loop_body c a bx y0 n ta i st)"
  by (simp add: lens_def loop_body_def Let_def split: prod.splits if_splits)

lemma lb_ball: "lens n st \<Longrightarrow> i < n \<Longrightarrow>
  ball_position (loop_body c a bx y0 n ta i st) = (ball_position st)[i := ball_height c a bx y0 (ta ! i)]"
  by (simp add: lens_def loop_body_def Let_def ball_height_def split: prod.splits if_splits)

lemma lb_force: 
  "applied_force (loop_body c a bx y0 n ta i st) = (applied_force st)[i := pid_force c bx st i]"
  by (simp add: loop_body_def Let_def pid_force_def pid_integral_def pid_derivative_def split: prod.splits if_splits)

lemma lb_ev: 
  "error_values (loop_body c a bx y0 n ta i st) = (error_values st)[i := bx - train_position st ! i]"
  by (simp add: loop_body_def Let_def split: prod.splits if_splits)

lemma lb_edv: 
  "error_derivative_values (loop_body c a bx y0 n ta i st) = (error_derivative_values st)[i := pid_derivative c bx st i]"
  by (simp add: loop_body_def Let_def pid_derivative_def split: prod.splits if_splits)

lemma lb_eiv: 
  "error_integral_values (loop_body c a bx y0 n ta i st) = (error_integral_values st)[i := pid_integral c bx st i]"
  by (simp add: loop_body_def Let_def pid_integral_def split: prod.splits if_splits)

lemma lb_ei: 
  "error_integral (loop_body c a bx y0 n ta i st) = pid_integral c bx st i"
  by (simp add: loop_body_def Let_def pid_integral_def split: prod.splits if_splits)

lemma lb_pe: 
  "previous_error (loop_body c a bx y0 n ta i st) = bx - train_position st ! i"
  by (simp add: loop_body_def Let_def split: prod.splits if_splits)

lemma lb_acc: 
  "train_acceleration (loop_body c a bx y0 n ta i st) = (train_acceleration st)[i := accel c a bx st i]"
  by (simp add: loop_body_def Let_def accel_def pid_force_def pid_integral_def pid_derivative_def friction_def split: prod.splits if_splits)

lemma lb_vel: "lens n st \<Longrightarrow> 
  train_velocity (loop_body c a bx y0 n ta i st) =
    (if Suc i < n then (train_velocity st)[Suc i := (if cand_s c a bx st i < 0 then 0 else cand_v c a bx st i)]
     else train_velocity st)"
  by (auto simp add: lens_def loop_body_def Let_def cand_s_def cand_v_def accel_def pid_force_def pid_integral_def pid_derivative_def friction_def split: prod.splits if_splits)

lemma lb_pos: "lens n st \<Longrightarrow> 
  train_position (loop_body c a bx y0 n ta i st) =
    (if Suc i < n then (train_position st)[Suc i := (if cand_s c a bx st i < 0 then 0 else cand_s c a bx st i)]
     else train_position st)"
  by (auto simp add: lens_def loop_body_def Let_def cand_s_def cand_v_def accel_def pid_force_def pid_integral_def pid_derivative_def friction_def split: prod.splits if_splits)

lemma sum_upd_le: "k \<le> i \<Longrightarrow> (\<Sum>j\<le>k. f (xs[Suc i := v] ! j)) = (\<Sum>j\<le>k. f (xs ! j))"
  by (intro sum.cong) auto

lemma sum_upd_less: "k \<le> Suc i \<Longrightarrow> (\<Sum>j<k. f (xs[Suc i := v] ! j)) = (\<Sum>j<k. f (xs ! j))"
  by (intro sum.cong) auto

lemma rec_ok_old:
  assumes L: "lens n st" and i: "i < n" and k: "k < i"
    and R: "rec_ok c a bx y0 tx n ta st k"
  shows "rec_ok c a bx y0 tx n ta (loop_body c a bx y0 n ta i st) k"
proof -
  have ne: "k \<noteq> i" "Suc k \<noteq> Suc i" "k \<noteq> Suc i" "k - 1 \<noteq> Suc i" "k \<le> i" using k by auto
  show ?thesis
    using R ne unfolding rec_ok_def
    by (simp add: lb_ball[OF L i] lb_force lb_ev lb_edv lb_eiv lb_acc lb_vel[OF L] lb_pos[OF L]
        sum_upd_le nth_list_update del: One_nat_def)
qed

lemma rec_ok_new:
  assumes L: "lens n st" and i: "i < n"
    and ei: "error_integral st = (\<Sum>j<i. (bx - train_position st ! j) * dt c)"
    and pe: "previous_error st = (if i = 0 then bx - tx else bx - train_position st ! (i - 1))"
  shows "rec_ok c a bx y0 tx n ta (loop_body c a bx y0 n ta i st) i"
proof -
  have len: "length (train_position st) = n" "length (train_velocity st) = n"
    "length (train_acceleration st) = n" "length (ball_position st) = n"
    "length (applied_force st) = n" "length (error_values st) = n"
    "length (error_derivative_values st) = n" "length (error_integral_values st) = n"
    using L by (simp_all add: lens_def)
  have ne: "i \<noteq> Suc i" "i - 1 \<noteq> Suc i" by auto
  have S: "(\<Sum>j\<le>i. (bx - train_position st ! j) * dt c) = pid_integral c bx st i"
    by (simp add: pid_integral_def ei lessThan_Suc_atMost[symmetric])
  show ?thesis
    unfolding rec_ok_def
    using i ne
    by (simp add: lb_ball[OF L i] lb_force lb_ev lb_edv lb_eiv lb_acc lb_vel[OF L] lb_pos[OF L]
        sum_upd_le len S pid_force_def pid_derivative_def pe cand_s_def cand_v_def accel_def
        nth_list_update del: One_nat_def)
qed

lemma inv_step:
  assumes I: "loop_inv c a bx y0 tx n ta i st" and i: "i < n"
  shows "loop_inv c a bx y0 tx n ta (Suc i) (loop_body c a bx y0 n ta i st)"
proof -
  from I have L: "lens n st" by (simp add: loop_inv_def)
  from I have ei: "error_integral st = (\<Sum>j<i. (bx - train_position st ! j) * dt c)"
    and pe: "previous_error st = (if i = 0 then bx - tx else bx - train_position st ! (i - 1))"
    and p0: "train_position st ! 0 = tx" and v0: "train_velocity st ! 0 = 0"
    and R: "\<forall>k<i. rec_ok c a bx y0 tx n ta st k"
    by (simp_all add: loop_inv_def)
  let ?st = "loop_body c a bx y0 n ta i st"
  have 1: "lens n ?st" by (rule lb_lens[OF L])
  have 2: "train_position ?st ! 0 = tx" "train_velocity ?st ! 0 = 0"
    using p0 v0 by (simp_all add: lb_pos[OF L] lb_vel[OF L])
  have 3: "error_integral ?st = (\<Sum>j<Suc i. (bx - train_position ?st ! j) * dt c)"
    by (simp add: lb_ei lb_pos[OF L] sum_upd_less pid_integral_def ei)
  have 4: "previous_error ?st = bx - train_position ?st ! i"
    by (simp add: lb_pe lb_pos[OF L])
  have 5: "rec_ok c a bx y0 tx n ta ?st k" if "k < Suc i" for k
  proof (cases "k = i")
    case True
    then show ?thesis using rec_ok_new[OF L i ei pe] by simp
  next
    case False
    with that have "k < i" by simp
    then show ?thesis using rec_ok_old[OF L i _ ] R by blast
  qed
  show ?thesis
    unfolding loop_inv_def using 1 2 3 4 5 by simp
qed

lemma inv_init:
  assumes "0 < n"
  shows "loop_inv c a bx y0 tx n ta 0 (init_state n bx y0 tx)"
  using assms by (simp add: loop_inv_def init_state_def lens_def Let_def nth_list_update)

lemma fold_upt_Suc: "fold f [0..<Suc i] st = f i (fold f [0..<i] st)"
  by simp

lemma inv_fold:
  assumes "0 < n" and "i \<le> n"
  shows "loop_inv c a bx y0 tx n ta i (fold (loop_body c a bx y0 n ta) [0..<i] (init_state n bx y0 tx))"
  using assms(2)
proof (induction i)
  case 0
  show ?case using inv_init[OF assms(1)] by simp
next
  case (Suc i)
  then have "i < n" and "i \<le> n" by simp_all
  with Suc.IH have "loop_inv c a bx y0 tx n ta i (fold (loop_body c a bx y0 n ta) [0..<i] (init_state n bx y0 tx))"
    by blast
  from inv_step[OF this \<open>i < n\<close>] show ?case by (simp only: fold_upt_Suc)
qed

lemma inv_run_loop:
  assumes "0 < n"
  shows "loop_inv c a bx y0 tx n ta n (run_loop c a bx y0 n ta (init_state n bx y0 tx))"
  unfolding run_loop_def by (rule inv_fold[OF assms order_refl])

lemma simulate_ok:
  assumes "dt c \<noteq> 0" and "0 < nat (py_int (simulation_time c / dt c))"
  shows "simulate_scenario c ad bx y0 tx =
     Inr [(''time'', map (\<lambda>i. real i * dt c) [0..<nat (py_int (simulation_time c / dt c))]),
          (''train_position'', train_position (final_state c ad bx y0 tx)),
          (''falling_object_position'', ball_position (final_state c ad bx y0 tx)),
          (''applied_force'', applied_force (final_state c ad bx y0 tx)),
          (''train_velocity'', train_velocity (final_state c ad bx y0 tx)),
          (''train_acceleration'', train_acceleration (final_state c ad bx y0 tx)),
          (''error_derivative'', error_derivative_values (final_state c ad bx y0 tx)),
          (''error_integral'', error_integral_values (final_state c ad bx y0 tx))]"
proof -
  from assms(2) have "0 < py_int (simulation_time c / dt c)" by simp
  then have "\<not> py_int (simulation_time c / dt c) < 0" "py_int (simulation_time c / dt c) \<noteq> 0"
    by simp_all
  then show ?thesis
    using assms(1) by (simp add: simulate_scenario_def final_state_def Let_def)
qed

lemma final_inv:
  assumes "0 < nat (py_int (simulation_time c / dt c))"
  shows "loop_inv c (deg2rad ad) bx y0 tx (nat (py_int (simulation_time c / dt c)))
           (map (\<lambda>i. real i * dt c) [0..<nat (py_int (simulation_time c / dt c))])
           (nat (py_int (simulation_time c / dt c))) (final_state c ad bx y0 tx)"
  unfolding final_state_def Let_def by (rule inv_run_loop[OF assms])

lemma final_lens:
  assumes "0 < nat (py_int (simulation_time c / dt c))"
  shows "lens (nat (py_int (simulation_time c / dt c))) (final_state c ad bx y0 tx)"
  using final_inv[OF assms] by (simp add: loop_inv_def)

lemma final_rec_ok:
  assumes "k < nat (py_int (simulation_time c / dt c))"
  shows "rec_ok c (deg2rad ad) bx y0 tx (nat (py_int (simulation_time c / dt c)))
           (map (\<lambda>i. real i * dt c) [0..<nat (py_int (simulation_time c / dt c))])
           (final_state c ad bx y0 tx) k"
proof -
  from assms have "0 < nat (py_int (simulation_time c / dt c))" by simp
  from final_inv[OF this] assms show ?thesis by (simp add: loop_inv_def)
qed

lemma recorded_cols:
  assumes d: "dt c \<noteq> 0" and k: "k < nat (py_int (simulation_time c / dt c))"
  shows "recorded (simulate_scenario c ad bx y0 tx) ''time'' k = Some (real k * dt c)"
    and "recorded (simulate_scenario c ad bx y0 tx) ''train_position'' k = Some (train_position (final_state c ad bx y0 tx) ! k)"
    and "recorded (simulate_scenario c ad bx y0 tx) ''falling_object_position'' k = Some (ball_position (final_state c ad bx y0 tx) ! k)"
    and "recorded (simulate_scenario c ad bx y0 tx) ''applied_force'' k = Some (applied_force (final_state c ad bx y0 tx) ! k)"
    and "recorded (simulate_scenario c ad bx y0 tx) ''train_velocity'' k = Some (train_velocity (final_state c ad bx y0 tx) ! k)"
    and "recorded (simulate_scenario c ad bx y0 tx) ''train_acceleration'' k = Some (train_acceleration (final_state c ad bx y0 tx) ! k)"
    and "recorded (simulate_scenario c ad bx y0 tx) ''error_derivative'' k = Some (error_derivative_values (final_state c ad bx y0 tx) ! k)"
    and "recorded (simulate_scenario c ad bx y0 tx) ''error_integral'' k = Some (error_integral_values (final_state c ad bx y0 tx) ! k)"
proof -
  from k have p: "0 < nat (py_int (simulation_time c / dt c))" by simp
  note L = final_lens[OF p, of ad bx y0 tx, unfolded lens_def]
  note S = simulate_ok[OF d p, of ad bx y0 tx]
  show "recorded (simulate_scenario c ad bx y0 tx) ''time'' k = Some (real k * dt c)"
    using k by (simp add: S recorded_def)
  show "recorded (simulate_scenario c ad bx y0 tx) ''train_position'' k = Some (train_position (final_state c ad bx y0 tx) ! k)"
    using k L by (simp add: S recorded_def)
  show "recorded (simulate_scenario c ad bx y0 tx) ''falling_object_position'' k = Some (ball_position (final_state c ad bx y0 tx) ! k)"
    using k L by (simp add: S recorded_def)
  show "recorded (simulate_scenario c ad bx y0 tx) ''applied_force'' k = Some (applied_force (final_state c ad bx y0 tx) ! k)"
    using k L by (simp add: S recorded_def)
  show "recorded (simulate_scenario c ad bx y0 tx) ''train_velocity'' k = Some (train_velocity (final_state c ad bx y0 tx) ! k)"
    using k L by (simp add: S recorded_def)
  show "recorded (simulate_scenario c ad bx y0 tx) ''train_acceleration'' k = Some (train_acceleration (final_state c ad bx y0 tx) ! k)"
    using k L by (simp add: S recorded_def)
  show "recorded (simulate_scenario c ad bx y0 tx) ''error_derivative'' k = Some (error_derivative_values (final_state c ad bx y0 tx) ! k)"
    using k L by (simp add: S recorded_def)
  show "recorded (simulate_scenario c ad bx y0 tx) ''error_integral'' k = Some (error_integral_values (final_state c ad bx y0 tx) ! k)"
    using k L by (simp add: S recorded_def)
qed

lemma friction_sgn:
  "friction c a v = (if \<bar>v\<bar> > 1 / 100 then - mu c * m c * g c * cos a * sgn v else 0)"
  by (simp add: friction_def sgn_if abs_if)

lemma py_int_pos: "0 < d \<Longrightarrow> d \<le> t \<Longrightarrow> py_int (t / d) = \<lfloor>t / d\<rfloor> \<and> 0 < \<lfloor>t / d\<rfloor>"
proof -
  assume d: "0 < d" and t: "d \<le> t"
  then have "1 \<le> t / d" by simp
  then have "0 < \<lfloor>t / d\<rfloor>" by linarith
  moreover have "0 \<le> t / d" using d t by simp
  ultimately show ?thesis by (simp add: py_int_def)
qed

lemma step_count_module: "step_count module_params = 2000"
  by (simp add: module_params_def py_int_def)

lemma simulate_counts:
  assumes "dt c \<noteq> 0" and "0 < step_count c"
  shows "raised (simulate_scenario c ad bx y0 tx) = None"
    and "num_records (simulate_scenario c ad bx y0 tx) = step_count c"
    and "column_lengths (simulate_scenario c ad bx y0 tx) = replicate 8 (step_count c)"
proof -
  note L = final_lens[OF assms(2), of ad bx y0 tx, unfolded lens_def]
  note S = simulate_ok[OF assms, of ad bx y0 tx]
  show "raised (simulate_scenario c ad bx y0 tx) = None" by (simp add: S raised_def)
  show "num_records (simulate_scenario c ad bx y0 tx) = step_count c" by (simp add: S num_records_def)
  show "column_lengths (simulate_scenario c ad bx y0 tx) = replicate 8 (step_count c)"
    using L by (simp add: S column_lengths_def eval_nat_numeral)
qed

lemma first_record:
  assumes d: "dt c \<noteq> 0" and p: "0 < step_count c"
  shows "recorded (simulate_scenario c ad bx y0 tx) ''time'' 0 = Some 0"
    and "recorded (simulate_scenario c ad bx y0 tx) ''train_position'' 0 = Some tx"
    and "recorded (simulate_scenario c ad bx y0 tx) ''train_velocity'' 0 = Some 0"
    and "recorded (simulate_scenario c ad bx y0 tx) ''error_integral'' 0 = Some ((bx - tx) * dt c)"
    and "recorded (simulate_scenario c ad bx y0 tx) ''error_derivative'' 0 = Some 0"
    and "recorded (simulate_scenario c ad bx y0 tx) ''applied_force'' 0 = Some ((Kp c + Ki c * dt c) * (bx - tx))"
proof -
  let ?f = "final_state c ad bx y0 tx"
  have I: "train_position ?f ! 0 = tx" "train_velocity ?f ! 0 = 0"
    using final_inv[OF p, of ad bx y0 tx] by (simp_all add: loop_inv_def)
  have R: "rec_ok c (deg2rad ad) bx y0 tx (step_count c) (map (\<lambda>i. real i * dt c) [0..<step_count c]) ?f 0"
    by (rule final_rec_ok[OF p])
  have EI: "error_integral_values ?f ! 0 = (bx - tx) * dt c"
    using R I by (simp add: rec_ok_def)
  have ED: "error_derivative_values ?f ! 0 = 0"
    using R I by (simp add: rec_ok_def)
  have F: "applied_force ?f ! 0 = (Kp c + Ki c * dt c) * (bx - tx)"
    using R I EI ED by (simp add: rec_ok_def algebra_simps)
  show "recorded (simulate_scenario c ad bx y0 tx) ''time'' 0 = Some 0"
    using recorded_cols(1)[OF d p, of ad bx y0 tx] by simp
  show "recorded (simulate_scenario c ad bx y0 tx) ''train_position'' 0 = Some tx"
    by (simp only: recorded_cols(2)[OF d p] I)
  show "recorded (simulate_scenario c ad bx y0 tx) ''train_velocity'' 0 = Some 0"
    by (simp only: recorded_cols(5)[OF d p] I)
  show "recorded (simulate_scenario c ad bx y0 tx) ''error_integral'' 0 = Some ((bx - tx) * dt c)"
    by (simp only: recorded_cols(8)[OF d p] EI)
  show "recorded (simulate_scenario c ad bx y0 tx) ''error_derivative'' 0 = Some 0"
    by (simp only: recorded_cols(7)[OF d p] ED)
  show "recorded (simulate_scenario c ad bx y0 tx) ''applied_force'' 0 = Some ((Kp c + Ki c * dt c) * (bx - tx))"
    by (simp only: recorded_cols(4)[OF d p] F)
qed

lemma position_nonneg:
  assumes tx: "0 \<le> tx" and k: "k < step_count c"
  shows "0 \<le> train_position (final_state c ad bx y0 tx) ! k"
proof (cases k)
  case 0
  from k have p: "0 < step_count c" by simp
  show ?thesis using final_inv[OF p, of ad bx y0 tx] tx 0 by (simp add: loop_inv_def)
next
  case (Suc i)
  with k have i: "i < step_count c" and si: "Suc i < step_count c" by simp_all
  from final_rec_ok[OF i, of ad bx y0 tx] si
  show ?thesis unfolding rec_ok_def Suc by (simp split: if_splits)
qed

lemma simulate_dt_zero:
  assumes "dt c = 0"
  shows "simulate_scenario c ad bx y0 tx = Inl ZeroDivisionError"
  using assms by (simp add: simulate_scenario_def Let_def)

lemma simulate_dt_neg:
  assumes "dt c < 0" and "0 \<le> simulation_time c"
  shows "simulate_scenario c ad bx y0 tx = Inl ValueError \<or> simulate_scenario c ad bx y0 tx = Inl IndexError"
proof -
  have "simulation_time c / dt c \<le> 0" using assms by (simp add: divide_nonneg_neg)
  then have "py_int (simulation_time c / dt c) \<le> 0"
    by (auto simp add: py_int_def)
  then show ?thesis using assms(1) by (auto simp add: simulate_scenario_def Let_def)
qed


section \<open>The data set: auxiliary facts\<close>

lemma csv_identity:
  assumes "\<forall>col \<in> set df. length (snd col) = n"
  shows "read_csv (to_csv df) = df"
proof (cases df)
  case Nil
  then show ?thesis by (simp add: read_csv_def to_csv_def)
next
  case (Cons col cols)
  with assms have n: "length (snd col) = n" by simp
  have "map (\<lambda>j. (map fst df ! j, map (\<lambda>row. row ! j) (map (\<lambda>i. map (\<lambda>col. snd col ! i) df) [0..<n])))
          [0..<length df] = df"
  proof (rule nth_equalityI)
    show "length (map (\<lambda>j. (map fst df ! j, map (\<lambda>row. row ! j) (map (\<lambda>i. map (\<lambda>col. snd col ! i) df) [0..<n]))) [0..<length df]) = length df"
      by simp
  next
    fix j
    assume "j < length (map (\<lambda>j. (map fst df ! j, map (\<lambda>row. row ! j) (map (\<lambda>i. map (\<lambda>col. snd col ! i) df) [0..<n]))) [0..<length df])"
    then have j: "j < length df" by simp
    then have "length (snd (df ! j)) = n" using assms by simp
    then have "map (\<lambda>i. snd (df ! j) ! i) [0..<n] = snd (df ! j)"
      using map_nth[of "snd (df ! j)"] by simp
    then show "map (\<lambda>j. (map fst df ! j, map (\<lambda>row. row ! j) (map (\<lambda>i. map (\<lambda>col. snd col ! i) df) [0..<n]))) [0..<length df] ! j = df ! j"
      using j by (simp add: comp_def prod_eq_iff)
  qed
  then show ?thesis
    using Cons n by (simp add: read_csv_def to_csv_def Let_def)
qed

lemma load_full:
  "load_simulation [(''time'', t), (''train_position'', p), (''falling_object_position'', b),
       (''applied_force'', f), (''train_velocity'', v), (''train_acceleration'', a),
       (''error_derivative'', d), (''error_integral'', i)]
   = Inr [(''time'', t), (''train_x'', p), (''ball_y'', b), (''force'', f)]"
  by (simp add: load_simulation_def set_columns_def)

lemma load_legacy:
  "load_simulation [(h1, t), (h2, p), (h3, b), (h4, f)]
   = Inr [(''time'', t), (''train_x'', p), (''ball_y'', b), (''force'', f)]"
  by (simp add: load_simulation_def set_columns_def)

section \<open>The properties of the specification\<close>

text \<open>
  C1. In every run that reaches the loop, at every step \<open>k\<close>, the recorded applied force
  is \<open>Kp * e k + Ki * I k + Kd * (e k - e (k - 1)) / dt\<close>, where \<open>e j\<close> is the target
  position minus the train position recorded at step \<open>j\<close>, the integral \<open>I k\<close> is
  \<open>dt\<close> times the sum of \<open>e 0\<close>, ..., \<open>e k\<close> (it starts from 0 before the first
  step), and the error before step 0 is the target position minus the initial train
  position. The recorded integral and derivative are these two terms, so after each step
  the previous error is the error of that step.
\<close>

theorem pid_force_recorded:
  assumes "dt c \<noteq> 0" and "m c \<noteq> 0" and "k < step_count c"
  shows "\<exists>s. (\<forall>j\<le>k. recorded (simulate_scenario c ad bx y0 tx) ''train_position'' j = Some (s j)) \<and>
     recorded (simulate_scenario c ad bx y0 tx) ''error_integral'' k = Some (dt c * (\<Sum>j\<le>k. bx - s j)) \<and>
     recorded (simulate_scenario c ad bx y0 tx) ''error_derivative'' k =
       Some (((bx - s k) - (if k = 0 then bx - tx else bx - s (k - 1))) / dt c) \<and>
     recorded (simulate_scenario c ad bx y0 tx) ''applied_force'' k =
       Some (Kp c * (bx - s k) + Ki c * (dt c * (\<Sum>j\<le>k. bx - s j))
              + Kd c * (((bx - s k) - (if k = 0 then bx - tx else bx - s (k - 1))) / dt c))"
proof -
  let ?f = "final_state c ad bx y0 tx"
  have P: "recorded (simulate_scenario c ad bx y0 tx) ''train_position'' j = Some (train_position ?f ! j)"
    if "j \<le> k" for j
    using recorded_cols(2)[OF assms(1), of j] that assms(3) by simp
  have R: "rec_ok c (deg2rad ad) bx y0 tx (step_count c) (map (\<lambda>i. real i * dt c) [0..<step_count c]) ?f k"
    by (rule final_rec_ok[OF assms(3)])
  have S: "(\<Sum>j\<le>k. (bx - train_position ?f ! j) * dt c) = dt c * (\<Sum>j\<le>k. bx - train_position ?f ! j)"
    by (simp add: sum_distrib_left mult.commute)
  have I: "error_integral_values ?f ! k = dt c * (\<Sum>j\<le>k. bx - train_position ?f ! j)"
    using R S by (simp add: rec_ok_def)
  have D: "error_derivative_values ?f ! k =
      ((bx - train_position ?f ! k) - (if k = 0 then bx - tx else bx - train_position ?f ! (k - 1))) / dt c"
    using R by (simp add: rec_ok_def)
  have F: "applied_force ?f ! k = Kp c * (bx - train_position ?f ! k)
      + Ki c * error_integral_values ?f ! k + Kd c * error_derivative_values ?f ! k"
    using R by (simp add: rec_ok_def)
  show ?thesis
    apply (rule exI[where x = "\<lambda>j. train_position ?f ! j"])
    apply (intro conjI allI impI)
       apply (erule P)
      apply (simp only: recorded_cols(8)[OF assms(1) assms(3)] I)
     apply (simp only: recorded_cols(7)[OF assms(1) assms(3)] D)
    apply (simp only: recorded_cols(4)[OF assms(1) assms(3)] F I D)
    done
qed

theorem pid_force_recorded_witness:
  "dt module_params \<noteq> 0 \<and> m module_params \<noteq> 0 \<and> 0 < step_count module_params \<and>
   recorded (simulate_scenario module_params 0 70 100 10) ''error_integral'' 0 = Some (6 / 5) \<and>
   recorded (simulate_scenario module_params 0 70 100 10) ''error_derivative'' 0 = Some 0 \<and>
   recorded (simulate_scenario module_params 0 70 100 10) ''applied_force'' 0 = Some (13503 / 5)"
proof -
  have h1: "dt module_params \<noteq> 0" and h2: "m module_params \<noteq> 0"
    by (simp_all add: module_params_def)
  have h3: "0 < step_count module_params" by (simp add: step_count_module)
  have p0: "recorded (simulate_scenario module_params 0 70 100 10) ''train_position'' 0 = Some 10"
    by (rule first_record(2)[OF h1 h3])
  from pid_force_recorded[OF h1 h2 h3, of 0 70 100 10] p0
  have "recorded (simulate_scenario module_params 0 70 100 10) ''error_integral'' 0 = Some (6 / 5) \<and>
   recorded (simulate_scenario module_params 0 70 100 10) ''error_derivative'' 0 = Some 0 \<and>
   recorded (simulate_scenario module_params 0 70 100 10) ''applied_force'' 0 = Some (13503 / 5)"
    by (auto simp add: module_params_def)
  with h1 h2 h3 show ?thesis by blast
qed

text \<open>
  C2. At every step \<open>k\<close> of a run, with \<open>s\<close>, \<open>v\<close>, \<open>a\<close> and \<open>F\<close> the recorded
  position, velocity, acceleration and applied force of that step: the acceleration is the
  net force over the mass, the net force being \<open>F\<close> plus the friction force minus
  \<open>m * g * sin angle\<close>, and the friction force being \<open>- mu * m * g * cos angle * sgn v\<close>
  when \<open>\<bar>v\<bar> > 0.01\<close> and 0 otherwise. When there is a next step, its velocity is
  \<open>v + a * dt\<close> and its position is \<open>s\<close> plus that velocity times \<open>dt\<close>, unless this
  position would be negative: then both the position and the velocity of the next step
  are 0.
\<close>

theorem track_dynamics_step:
  assumes "dt c \<noteq> 0" and "m c \<noteq> 0" and "k < step_count c"
  shows "\<exists>s v a F.
     recorded (simulate_scenario c ad bx y0 tx) ''train_position'' k = Some s \<and>
     recorded (simulate_scenario c ad bx y0 tx) ''train_velocity'' k = Some v \<and>
     recorded (simulate_scenario c ad bx y0 tx) ''train_acceleration'' k = Some a \<and>
     recorded (simulate_scenario c ad bx y0 tx) ''applied_force'' k = Some F \<and>
     a = (F + (if \<bar>v\<bar> > 1 / 100 then - mu c * m c * g c * cos (deg2rad ad) * sgn v else 0)
            - m c * g c * sin (deg2rad ad)) / m c \<and>
     (Suc k < step_count c \<longrightarrow>
        recorded (simulate_scenario c ad bx y0 tx) ''train_velocity'' (Suc k) =
          Some (if s + (v + a * dt c) * dt c < 0 then 0 else v + a * dt c) \<and>
        recorded (simulate_scenario c ad bx y0 tx) ''train_position'' (Suc k) =
          Some (if s + (v + a * dt c) * dt c < 0 then 0 else s + (v + a * dt c) * dt c))"
proof -
  let ?f = "final_state c ad bx y0 tx"
  have R: "rec_ok c (deg2rad ad) bx y0 tx (step_count c) (map (\<lambda>i. real i * dt c) [0..<step_count c]) ?f k"
    by (rule final_rec_ok[OF assms(3)])
  have A: "train_acceleration ?f ! k =
      (applied_force ?f ! k
        + (if \<bar>train_velocity ?f ! k\<bar> > 1 / 100
           then - mu c * m c * g c * cos (deg2rad ad) * sgn (train_velocity ?f ! k) else 0)
        - m c * g c * sin (deg2rad ad)) / m c"
    using R unfolding rec_ok_def friction_sgn by simp
  have N: "train_velocity ?f ! Suc k =
          (if train_position ?f ! k + (train_velocity ?f ! k + train_acceleration ?f ! k * dt c) * dt c < 0
           then 0 else train_velocity ?f ! k + train_acceleration ?f ! k * dt c) \<and>
        train_position ?f ! Suc k =
          (if train_position ?f ! k + (train_velocity ?f ! k + train_acceleration ?f ! k * dt c) * dt c < 0
           then 0 else train_position ?f ! k + (train_velocity ?f ! k + train_acceleration ?f ! k * dt c) * dt c)"
    if "Suc k < step_count c"
    using R that unfolding rec_ok_def by blast
  show ?thesis
    apply (rule exI[where x = "train_position ?f ! k"])
    apply (rule exI[where x = "train_velocity ?f ! k"])
    apply (rule exI[where x = "train_acceleration ?f ! k"])
    apply (rule exI[where x = "applied_force ?f ! k"])
    apply (intro conjI impI)
          apply (rule recorded_cols(2)[OF assms(1) assms(3)])
         apply (rule recorded_cols(5)[OF assms(1) assms(3)])
        apply (rule recorded_cols(6)[OF assms(1) assms(3)])
       apply (rule recorded_cols(4)[OF assms(1) assms(3)])
      apply (rule A)
     apply (simp only: recorded_cols(5)[OF assms(1)] N)
    apply (simp only: recorded_cols(2)[OF assms(1)] N)
    done
qed

theorem track_dynamics_step_witness:
  "dt module_params \<noteq> 0 \<and> m module_params \<noteq> 0 \<and> 0 < step_count module_params \<and>
   recorded (simulate_scenario module_params 0 70 100 10) ''train_acceleration'' 0 = Some (13503 / 50) \<and>
   recorded (simulate_scenario module_params 0 70 100 10) ''train_velocity'' (Suc 0) = Some (13503 / 2500) \<and>
   recorded (simulate_scenario module_params 0 70 100 10) ''train_position'' (Suc 0) = Some (1263503 / 125000)"
proof -
  have h1: "dt module_params \<noteq> 0" and h2: "m module_params \<noteq> 0"
    by (simp_all add: module_params_def)
  have h3: "0 < step_count module_params" by (simp add: step_count_module)
  have h4: "Suc 0 < step_count module_params" by (simp add: step_count_module)
  have p0: "recorded (simulate_scenario module_params 0 70 100 10) ''train_position'' 0 = Some 10"
    by (rule first_record(2)[OF h1 h3])
  have v0: "recorded (simulate_scenario module_params 0 70 100 10) ''train_velocity'' 0 = Some 0"
    by (rule first_record(3)[OF h1 h3])
  have f0: "recorded (simulate_scenario module_params 0 70 100 10) ''applied_force'' 0 = Some (13503 / 5)"
    using first_record(6)[OF h1 h3, of 0 70 100 10] by (simp add: module_params_def)
  from track_dynamics_step[OF h1 h2 h3, of 0 70 100 10] p0 v0 f0 h4
  have "recorded (simulate_scenario module_params 0 70 100 10) ''train_acceleration'' 0 = Some (13503 / 50) \<and>
   recorded (simulate_scenario module_params 0 70 100 10) ''train_velocity'' (Suc 0) = Some (13503 / 2500) \<and>
   recorded (simulate_scenario module_params 0 70 100 10) ''train_position'' (Suc 0) = Some (1263503 / 125000)"
    by (auto simp add: module_params_def deg2rad_def)
  with h1 h2 h3 show ?thesis by blast
qed

text \<open>
  C3. The object height recorded at step \<open>k\<close> depends on the elapsed time
  \<open>t = k * dt\<close> and on the configuration only: it is \<open>ball_y0 - g * t\<^sup>2 / 2\<close> when this
  exceeds the landing height \<open>ball_x * tan angle\<close>, and the landing height otherwise.
  Neither the train nor the controller enters the value, and the computation writes the
  height array only.
\<close>

theorem ball_height_recorded:
  assumes "dt c \<noteq> 0" and "k < step_count c"
  shows "recorded (simulate_scenario c ad bx y0 tx) ''time'' k = Some (real k * dt c) \<and>
     recorded (simulate_scenario c ad bx y0 tx) ''falling_object_position'' k =
       Some (if y0 - (1 / 2) * g c * (real k * dt c) ^ 2 > bx * tan (deg2rad ad)
             then y0 - (1 / 2) * g c * (real k * dt c) ^ 2
             else bx * tan (deg2rad ad))"
proof -
  let ?f = "final_state c ad bx y0 tx"
  have R: "rec_ok c (deg2rad ad) bx y0 tx (step_count c) (map (\<lambda>i. real i * dt c) [0..<step_count c]) ?f k"
    by (rule final_rec_ok[OF assms(2)])
  have T: "map (\<lambda>i. real i * dt c) [0..<step_count c] ! k = real k * dt c"
    using assms(2) by simp
  have B: "ball_position ?f ! k =
      (if y0 - (1 / 2) * g c * (real k * dt c) ^ 2 > bx * tan (deg2rad ad)
             then y0 - (1 / 2) * g c * (real k * dt c) ^ 2
             else bx * tan (deg2rad ad))"
    using R unfolding rec_ok_def T ball_height_def by (simp add: not_le)
  show ?thesis
    by (simp only: recorded_cols(1,3)[OF assms] B)
qed

theorem ball_height_recorded_witness:
  "dt module_params \<noteq> 0 \<and> 100 < step_count module_params \<and> 250 < step_count module_params \<and>
   recorded (simulate_scenario module_params 0 70 100 10) ''time'' 100 = Some 2 \<and>
   recorded (simulate_scenario module_params 0 70 100 10) ''falling_object_position'' 100 = Some (4019 / 50) \<and>
   recorded (simulate_scenario module_params 0 70 100 10) ''time'' 250 = Some 5 \<and>
   recorded (simulate_scenario module_params 0 70 100 10) ''falling_object_position'' 250 = Some 0"
proof -
  have h1: "dt module_params \<noteq> 0" by (simp add: module_params_def)
  have h2: "100 < step_count module_params" and h3: "250 < step_count module_params"
    by (simp_all add: step_count_module)
  from ball_height_recorded[OF h1 h2, of 0 70 100 10]
  have A: "recorded (simulate_scenario module_params 0 70 100 10) ''time'' 100 = Some 2 \<and>
   recorded (simulate_scenario module_params 0 70 100 10) ''falling_object_position'' 100 = Some (4019 / 50)"
    by (simp add: module_params_def deg2rad_def)
  from ball_height_recorded[OF h1 h3, of 0 70 100 10]
  have B: "recorded (simulate_scenario module_params 0 70 100 10) ''time'' 250 = Some 5 \<and>
   recorded (simulate_scenario module_params 0 70 100 10) ''falling_object_position'' 250 = Some 0"
    by (simp add: module_params_def deg2rad_def)
  from h1 h2 h3 A B show ?thesis by blast
qed

text \<open>
  C4. The classifier is to declare the object caught at the first step where the train is
  less than 3 m from the target while the object has reached the landing surface, to
  declare it missed when the object reaches the surface before any such step, and never to
  change a classification once made. The code does otherwise. In the first run below the
  object lies on the surface from frame 200 on with the train 40 m away: no verdict is
  printed at frames 200 and 300, the text shows distances only, and frame 400 prints
  caught. In the second run the object is below the surface at frame 200 and missed is
  printed there, yet the text of frame 400 reads caught. The scenario analysis reports a
  catch at time 8 for an object that landed at time 4 with the train 40 m away, counts a
  train exactly 3 m away as a catch, and raises on a scenario without rows.
\<close>

theorem catch_after_landing_run:
  "animate_frames 70 0 [(200, 30, 0), (300, 30, 0), (400, 69, 0)] pending =
     (\<lparr> ball_caught_at_frame = Some 400, ball_caught_y = Some 0 \<rparr>,
      [(400, CAUGHT)],
      [(200, Text_distances), (300, Text_distances), (400, Text_CAUGHT)]) \<and>
   animate_frames 70 0 [(200, 30, - 1), (400, 69, - 1)] pending =
     (\<lparr> ball_caught_at_frame = Some 200, ball_caught_y = Some 0 \<rparr>,
      [(200, MISSED)],
      [(200, Text_MISSED), (400, Text_CAUGHT)]) \<and>
   calculate_metrics 0 70 10 [(4, 30, 0, 90, 5, 2), (8, 69, 0, 10, 1, - 3)] =
     Inr \<lparr> caught = True, catch_time = Some 8, catch_distance = Some 1,
           max_velocity = 5, max_acceleration = 3, max_force = 90, mean_force = 50,
           initial_distance = 60 \<rparr> \<and>
   calculate_metrics 0 70 10 [(4, 67, 0, 90, 5, 2)] =
     Inr \<lparr> caught = True, catch_time = Some 4, catch_distance = Some 3,
           max_velocity = 5, max_acceleration = 2, max_force = 90, mean_force = 90,
           initial_distance = 60 \<rparr> \<and>
   calculate_metrics 0 70 10 [] = Inl ValueError"
  by (simp add: animate_def pending_def calculate_metrics_def deg2rad_def Let_def
      np_max_def np_mean_def)




text \<open>
  C6, as the code has it. The function checks none of its inputs. A time step of zero
  makes the step count raise \<^verbatim>\<open>ZeroDivisionError\<close>, and a negative time step with a
  non-negative duration makes the allocation of the arrays raise \<^verbatim>\<open>ValueError\<close> or the
  first write raise \<^verbatim>\<open>IndexError\<close>; both happen before the loop and leave no rows. Mass
  and positions are never inspected: with a positive time step and a duration of at least
  one step the run completes with all its rows for every mass and for every pair of train
  and target positions.
\<close>

theorem faults_before_loop:
  "(dt c = 0 \<longrightarrow>
      raised (simulate_scenario c ad bx y0 tx) = Some ZeroDivisionError \<and>
      num_records (simulate_scenario c ad bx y0 tx) = 0) \<and>
   (dt c < 0 \<longrightarrow> 0 \<le> simulation_time c \<longrightarrow>
      (raised (simulate_scenario c ad bx y0 tx) = Some ValueError \<or>
       raised (simulate_scenario c ad bx y0 tx) = Some IndexError) \<and>
      num_records (simulate_scenario c ad bx y0 tx) = 0) \<and>
   (0 < dt c \<longrightarrow> dt c \<le> simulation_time c \<longrightarrow>
      raised (simulate_scenario c ad bx y0 tx) = None \<and>
      num_records (simulate_scenario c ad bx y0 tx) = nat \<lfloor>simulation_time c / dt c\<rfloor>)"
proof (intro conjI impI)
  assume "dt c = 0"
  from simulate_dt_zero[OF this]
  show "raised (simulate_scenario c ad bx y0 tx) = Some ZeroDivisionError"
    and "num_records (simulate_scenario c ad bx y0 tx) = 0"
    by (simp_all add: raised_def num_records_def)
next
  assume "dt c < 0" and "0 \<le> simulation_time c"
  from simulate_dt_neg[OF this, of ad bx y0 tx]
  show "raised (simulate_scenario c ad bx y0 tx) = Some ValueError \<or>
       raised (simulate_scenario c ad bx y0 tx) = Some IndexError"
    and "num_records (simulate_scenario c ad bx y0 tx) = 0"
    by (auto simp add: raised_def num_records_def)
next
  assume d: "0 < dt c" and t: "dt c \<le> simulation_time c"
  from py_int_pos[OF d t] have E: "py_int (simulation_time c / dt c) = \<lfloor>simulation_time c / dt c\<rfloor>"
    and P: "0 < step_count c" by simp_all
  from d have nz: "dt c \<noteq> 0" by simp
  show "raised (simulate_scenario c ad bx y0 tx) = None"
    by (rule simulate_counts(1)[OF nz P])
  show "num_records (simulate_scenario c ad bx y0 tx) = nat \<lfloor>simulation_time c / dt c\<rfloor>"
    using simulate_counts(2)[OF nz P, of ad bx y0 tx] by (simp only: E)
qed

theorem faults_before_loop_witness:
  "dt (module_params\<lparr>dt := 0\<rparr>) = 0 \<and>
   raised (simulate_scenario (module_params\<lparr>dt := 0\<rparr>) 30 70 100 10) = Some ZeroDivisionError \<and>
   num_records (simulate_scenario (module_params\<lparr>dt := 0\<rparr>) 30 70 100 10) = 0 \<and>
   dt (module_params\<lparr>dt := - 1\<rparr>) < 0 \<and> 0 \<le> simulation_time (module_params\<lparr>dt := - 1\<rparr>) \<and>
   num_records (simulate_scenario (module_params\<lparr>dt := - 1\<rparr>) 30 70 100 10) = 0 \<and>
   0 < dt (module_params\<lparr>m := 0 - 10\<rparr>) \<and>
   dt (module_params\<lparr>m := 0 - 10\<rparr>) \<le> simulation_time (module_params\<lparr>m := 0 - 10\<rparr>) \<and>
   raised (simulate_scenario (module_params\<lparr>m := 0 - 10\<rparr>) 30 10 100 70) = None \<and>
   num_records (simulate_scenario (module_params\<lparr>m := 0 - 10\<rparr>) 30 10 100 70) = 2000"
  using faults_before_loop[of "module_params\<lparr>dt := 0\<rparr>" 30 70 100 10]
    faults_before_loop[of "module_params\<lparr>dt := - 1\<rparr>" 30 70 100 10]
    faults_before_loop[of "module_params\<lparr>m := 0 - 10\<rparr>" 30 10 100 70]
  by (simp add: module_params_def)

text \<open>
  With the constants of the script, a train that starts at 70 beyond a target at 10 is
  simulated for all 2000 steps.
\<close>

theorem invalid_config_not_checked_example:
  "raised (simulate_scenario module_params 30 10 100 70) = None \<and>
   num_records (simulate_scenario module_params 30 10 100 70) = 2000"
proof -
  have nz: "dt module_params \<noteq> 0" by (simp add: module_params_def)
  have P: "0 < step_count module_params" by (simp add: step_count_module)
  show ?thesis
    using simulate_counts(1,2)[OF nz P, of 30 10 100 70] by (simp only: step_count_module simp_thms)
qed

text \<open>
  C7, as the code has it. The integral is advanced before it is recorded, so the first
  record holds \<open>(ball_x - train_x0) * dt\<close> as error integral, not 0. The first recorded
  error derivative is the first error minus the seed, over \<open>dt\<close>; the seed is the first
  error, so the derivative is 0.
\<close>

theorem first_record_pid_terms:
  assumes "dt c \<noteq> 0" and "0 < step_count c"
  shows "recorded (simulate_scenario c ad bx y0 tx) ''error_integral'' 0 = Some ((bx - tx) * dt c) \<and>
     recorded (simulate_scenario c ad bx y0 tx) ''error_derivative'' 0 = Some (((bx - tx) - (bx - tx)) / dt c) \<and>
     recorded (simulate_scenario c ad bx y0 tx) ''error_derivative'' 0 = Some 0"
  using first_record(4,5)[OF assms, of ad bx y0 tx] by simp

theorem first_record_pid_terms_witness:
  "dt module_params \<noteq> 0 \<and> 0 < step_count module_params \<and>
   recorded (simulate_scenario module_params 30 70 100 10) ''error_integral'' 0 = Some (6 / 5) \<and>
   recorded (simulate_scenario module_params 30 70 100 10) ''error_derivative'' 0 = Some 0"
proof -
  have h1: "dt module_params \<noteq> 0" by (simp add: module_params_def)
  have h2: "0 < step_count module_params" by (simp add: step_count_module)
  from first_record_pid_terms[OF h1 h2, of 30 70 100 10]
  have "recorded (simulate_scenario module_params 30 70 100 10) ''error_integral'' 0 = Some (6 / 5) \<and>
   recorded (simulate_scenario module_params 30 70 100 10) ''error_derivative'' 0 = Some 0"
    by (simp add: module_params_def)
  with h1 h2 show ?thesis by blast
qed

text \<open>
  In the scenario of the specification (angle 30, target 70, height 100, start 10) the
  first recorded error integral is \<open>60 * 0.02 = 1.2\<close>.
\<close>

theorem first_record_integral_example:
  "recorded (simulate_scenario module_params 30 70 100 10) ''error_integral'' 0 = Some (6 / 5) \<and>
   recorded (simulate_scenario module_params 30 70 100 10) ''error_integral'' 0 \<noteq> Some 0"
proof -
  have nz: "dt module_params \<noteq> 0" by (simp add: module_params_def)
  have P: "0 < step_count module_params" by (simp add: step_count_module)
  have "recorded (simulate_scenario module_params 30 70 100 10) ''error_integral'' 0 = Some (6 / 5)"
    using first_record(4)[OF nz P, of 30 70 100 10] by (simp add: module_params_def)
  then show ?thesis by simp
qed

text \<open>
  C8. Eight equally long arrays written as the eight-column frame of the generator and
  read back are loaded with the same time, train position and applied force values, and so
  is a four-column file in the order time, train position, object height, force, whatever
  its column names: the loader decides between the two by the number of columns alone.
\<close>

theorem csv_round_trip:
  assumes "length p = length t" and "length b = length t" and "length f = length t"
    and "length v = length t" and "length a = length t" and "length d = length t"
    and "length i = length t"
  shows "load_simulation (read_csv (to_csv
            [(''time'', t), (''train_position'', p), (''falling_object_position'', b),
             (''applied_force'', f), (''train_velocity'', v), (''train_acceleration'', a),
             (''error_derivative'', d), (''error_integral'', i)]))
          = Inr [(''time'', t), (''train_x'', p), (''ball_y'', b), (''force'', f)] \<and>
         load_simulation (read_csv (to_csv [(h1, t), (h2, p), (h3, b), (h4, f)]))
          = Inr [(''time'', t), (''train_x'', p), (''ball_y'', b), (''force'', f)]"
proof -
  have A: "read_csv (to_csv
            [(''time'', t), (''train_position'', p), (''falling_object_position'', b),
             (''applied_force'', f), (''train_velocity'', v), (''train_acceleration'', a),
             (''error_derivative'', d), (''error_integral'', i)])
        = [(''time'', t), (''train_position'', p), (''falling_object_position'', b),
             (''applied_force'', f), (''train_velocity'', v), (''train_acceleration'', a),
             (''error_derivative'', d), (''error_integral'', i)]"
    by (rule csv_identity[where n = "length t"]) (simp add: assms)
  have B: "read_csv (to_csv [(h1, t), (h2, p), (h3, b), (h4, f)]) = [(h1, t), (h2, p), (h3, b), (h4, f)]"
    by (rule csv_identity[where n = "length t"]) (simp add: assms)
  show ?thesis
    unfolding A B by (rule conjI[OF load_full load_legacy])
qed

theorem csv_round_trip_witness:
  "length [10, 11 :: real] = length [0, 1 / 50 :: real] \<and>
   to_csv [(''time'', [0, 1 / 50]), (''train_position'', [10, 11]), (''falling_object_position'', [100, 99]),
           (''applied_force'', [5, 6]), (''train_velocity'', [0, 1]), (''train_acceleration'', [2, 3]),
           (''error_derivative'', [0, 4]), (''error_integral'', [7, 8])]
     = ([''time'', ''train_position'', ''falling_object_position'', ''applied_force'',
         ''train_velocity'', ''train_acceleration'', ''error_derivative'', ''error_integral''],
        [ [0, 10, 100, 5, 0, 2, 0, 7], [1 / 50, 11, 99, 6, 1, 3, 4, 8] ]) \<and>
   load_simulation (read_csv (to_csv
           [(''time'', [0, 1 / 50]), (''train_position'', [10, 11]), (''falling_object_position'', [100, 99]),
            (''applied_force'', [5, 6]), (''train_velocity'', [0, 1]), (''train_acceleration'', [2, 3]),
            (''error_derivative'', [0, 4]), (''error_integral'', [7, 8])]))
     = Inr [(''time'', [0, 1 / 50]), (''train_x'', [10, 11]), (''ball_y'', [100, 99]), (''force'', [5, 6])] \<and>
   load_simulation (read_csv (to_csv
           [(''time'', [0, 1 / 50]), (''train_x'', [10, 11]), (''ball_y'', [100, 99]), (''force'', [5, 6])]))
     = Inr [(''time'', [0, 1 / 50]), (''train_x'', [10, 11]), (''ball_y'', [100, 99]), (''force'', [5, 6])]"
proof -
  have L: "length [10, 11 :: real] = length [0, 1 / 50 :: real]" by simp
  have W: "to_csv [(''time'', [0, 1 / 50]), (''train_position'', [10, 11]), (''falling_object_position'', [100, 99]),
           (''applied_force'', [5, 6]), (''train_velocity'', [0, 1]), (''train_acceleration'', [2, 3]),
           (''error_derivative'', [0, 4]), (''error_integral'', [7, 8])]
     = ([''time'', ''train_position'', ''falling_object_position'', ''applied_force'',
         ''train_velocity'', ''train_acceleration'', ''error_derivative'', ''error_integral''],
        [ [0, 10, 100, 5, 0, 2, 0, 7], [1 / 50, 11, 99, 6, 1, 3, 4, 8] ])"
    by (simp add: to_csv_def upt_rec[of 0] upt_rec[of 1] upt_rec[of 2])
  from csv_round_trip[of "[10, 11]" "[0, 1 / 50]" "[100, 99]" "[5, 6]" "[0, 1]" "[2, 3]" "[0, 4]" "[7, 8]"
      "''time''" "''train_x''" "''ball_y''" "''force''"]
  have R: "load_simulation (read_csv (to_csv
           [(''time'', [0, 1 / 50]), (''train_position'', [10, 11]), (''falling_object_position'', [100, 99]),
            (''applied_force'', [5, 6]), (''train_velocity'', [0, 1]), (''train_acceleration'', [2, 3]),
            (''error_derivative'', [0, 4]), (''error_integral'', [7, 8])]))
     = Inr [(''time'', [0, 1 / 50]), (''train_x'', [10, 11]), (''ball_y'', [100, 99]), (''force'', [5, 6])] \<and>
   load_simulation (read_csv (to_csv
           [(''time'', [0, 1 / 50]), (''train_x'', [10, 11]), (''ball_y'', [100, 99]), (''force'', [5, 6])]))
     = Inr [(''time'', [0, 1 / 50]), (''train_x'', [10, 11]), (''ball_y'', [100, 99]), (''force'', [5, 6])]"
    by simp
  from L W R show ?thesis by blast
qed

text \<open>
  C9. When the train starts at a non-negative position, the train position recorded at
  every step of the run is non-negative.
\<close>

theorem train_position_nonneg:
  assumes "dt c \<noteq> 0" and "m c \<noteq> 0" and "0 \<le> tx" and "k < step_count c"
  shows "\<exists>s. recorded (simulate_scenario c ad bx y0 tx) ''train_position'' k = Some s \<and> 0 \<le> s"
  using recorded_cols(2)[OF assms(1) assms(4), of ad bx y0 tx] position_nonneg[OF assms(3) assms(4), of ad bx y0]
  by simp

theorem train_position_nonneg_witness:
  "dt module_params \<noteq> 0 \<and> m module_params \<noteq> 0 \<and> (0::real) \<le> 10 \<and> 1999 < step_count module_params \<and>
   (\<exists>s. recorded (simulate_scenario module_params 30 70 100 10) ''train_position'' 1999 = Some s \<and> 0 \<le> s)"
proof -
  have h1: "dt module_params \<noteq> 0" and h2: "m module_params \<noteq> 0"
    by (simp_all add: module_params_def)
  have h3: "(0::real) \<le> 10" by simp
  have h4: "1999 < step_count module_params" by (simp add: step_count_module)
  from train_position_nonneg[OF h1 h2 h3 h4, of 30 70 100] h1 h2 h3 h4
  show ?thesis by blast
qed

text \<open>
  C10. The first record of every run has time 0, the initial train position and velocity
  0: the train starts at rest. The first applied force is therefore \<open>(Kp + Ki * dt)\<close>
  times the initial separation \<open>ball_x - train_x0\<close>.
\<close>

theorem first_record_at_rest:
  assumes "dt c \<noteq> 0" and "0 < step_count c"
  shows "recorded (simulate_scenario c ad bx y0 tx) ''time'' 0 = Some 0 \<and>
     recorded (simulate_scenario c ad bx y0 tx) ''train_position'' 0 = Some tx \<and>
     recorded (simulate_scenario c ad bx y0 tx) ''train_velocity'' 0 = Some 0 \<and>
     recorded (simulate_scenario c ad bx y0 tx) ''applied_force'' 0 = Some ((Kp c + Ki c * dt c) * (bx - tx))"
  using first_record(1,2,3,6)[OF assms, of ad bx y0 tx] by simp

theorem first_record_at_rest_witness:
  "dt module_params \<noteq> 0 \<and> 0 < step_count module_params \<and>
   recorded (simulate_scenario module_params 30 70 100 10) ''time'' 0 = Some 0 \<and>
   recorded (simulate_scenario module_params 30 70 100 10) ''train_position'' 0 = Some 10 \<and>
   recorded (simulate_scenario module_params 30 70 100 10) ''train_velocity'' 0 = Some 0 \<and>
   recorded (simulate_scenario module_params 30 70 100 10) ''applied_force'' 0 = Some (13503 / 5)"
proof -
  have h1: "dt module_params \<noteq> 0" by (simp add: module_params_def)
  have h2: "0 < step_count module_params" by (simp add: step_count_module)
  from first_record_at_rest[OF h1 h2, of 30 70 100 10]
  have "recorded (simulate_scenario module_params 30 70 100 10) ''time'' 0 = Some 0 \<and>
   recorded (simulate_scenario module_params 30 70 100 10) ''train_position'' 0 = Some 10 \<and>
   recorded (simulate_scenario module_params 30 70 100 10) ''train_velocity'' 0 = Some 0 \<and>
   recorded (simulate_scenario module_params 30 70 100 10) ''applied_force'' 0 = Some (13503 / 5)"
    by (simp add: module_params_def)
  with h1 h2 show ?thesis by blast
qed

end
